theory Spec2Isabelle
  imports Complex_Main
begin

section \<open>The Kontour Coin ledger (kontour\_coin.py) and its mining oracle\<close>

text \<open>
  The ledger class \<^verbatim>\<open>KontourCoin\<close> keeps a list of blocks, a list of pending
  transactions and a dictionary of balances, and mines through
  \<^verbatim>\<open>QuantumKontourIntegration.quantum_enhanced_mining\<close>. Both are embedded here
  function by function. What the code takes from outside Python's own arithmetic is an
  argument of the model:
  \<^item> the library functions \<^verbatim>\<open>hashlib.sha256(..).hexdigest()\<close>, the builtin
    \<^verbatim>\<open>hash\<close> (salted per process), \<^verbatim>\<open>json.dumps(.., sort_keys=True)\<close> and the
    f-string rendering of an enum member and of a float are the fields of \<open>env\<close>;
  \<^item> the readings of \<^verbatim>\<open>time.time()\<close>, the random address of
    \<^verbatim>\<open>create_account\<close> and the measurement outcomes of the simulated circuit are
    arguments of the operation that reads them.
  Amounts and balances are Python numbers: integers, which are exact, or floats (the
  annotated type of an amount), which round, with their infinities and NaN. Dictionaries
  are association lists in insertion order, and an exception is a value that comes back
  together with the state the interrupted method leaves behind. The contract and model
  registries and the oracle's log are not part of the model. Transactions are copied by
  value: the one effect of Python's sharing that is kept is that the status flips of an
  interrupted commit show both in the appended block and in the pending list.
\<close>

subsection \<open>Dictionaries and exceptions\<close>

datatype exn = KeyError string | IndexError | ZeroDivisionError | ValueError | OverflowError

fun dict_set :: "'k \<Rightarrow> 'v \<Rightarrow> ('k \<times> 'v) list \<Rightarrow> ('k \<times> 'v) list" where
  "dict_set k v [] = [(k, v)]"
| "dict_set k v ((k', v') # d) =
     (if k' = k then (k, v) # d else (k', v') # dict_set k v d)"

definition dict_del :: "'k \<Rightarrow> ('k \<times> 'v) list \<Rightarrow> ('k \<times> 'v) list" where
  "dict_del k d = filter (\<lambda>kv. fst kv \<noteq> k) d"

subsection \<open>Python numbers\<close>

text \<open>A number is an \<^verbatim>\<open>int\<close> or a \<^verbatim>\<open>float\<close>. A finite float is given by its
  value, a rational, and every float an operation returns is a double: the result of
  \<open>round_double\<close>. The sign of a zero is not kept.\<close>

datatype pynum = PyInt int | PyFloat rat | PyInf bool | PyNaN

fun num_value :: "pynum \<Rightarrow> rat" where
  "num_value (PyInt i) = of_int i"
| "num_value (PyFloat q) = q"
| "num_value x = 0"

fun is_int :: "pynum \<Rightarrow> bool" where
  "is_int (PyInt i) = True"
| "is_int x = False"

text \<open>Rounding to the nearest double, ties to even: 53 significant bits, the least
  exponent that of the subnormal numbers, and overflow from \<open>2\<^sup>1\<^sup>0\<^sup>2\<^sup>4\<close> on.\<close>

function bit_length :: "int \<Rightarrow> int" where
  "bit_length n = (if n \<le> 0 then 0 else 1 + bit_length (n div 2))"
  by pat_completeness auto
termination
  by (relation "measure nat") auto

declare bit_length.simps [simp del]

definition pow2 :: "int \<Rightarrow> rat" where
  "pow2 k = (if 0 \<le> k then 2 ^ nat k else 1 / 2 ^ nat (- k))"

text \<open>The integer part of the binary logarithm of a positive rational: the bit lengths
  of numerator and denominator give it up to one.\<close>

definition floor_log2 :: "rat \<Rightarrow> int" where
  "floor_log2 q =
     (let k = bit_length (fst (quotient_of q)) - bit_length (snd (quotient_of q))
      in if pow2 k \<le> q then k else k - 1)"

definition round_half_even :: "rat \<Rightarrow> int" where
  "round_half_even x =
     (let f = \<lfloor>x\<rfloor>; r = x - of_int f
      in if r < 1 / 2 then f else if 1 / 2 < r then f + 1 else if even f then f else f + 1)"

text \<open>The magnitude: \<open>None\<close> is overflow.\<close>

definition round_mag :: "rat \<Rightarrow> rat option" where
  "round_mag x =
     (if x = 0 then Some 0
      else
        let s = max (floor_log2 x - 52) (- 1074);
            r = of_int (round_half_even (x / pow2 s)) * pow2 s
        in if r \<noteq> 0 \<and> 1024 \<le> floor_log2 r then None else Some r)"

definition round_double :: "rat \<Rightarrow> pynum" where
  "round_double q =
     (if q < 0 then (case round_mag (- q) of None \<Rightarrow> PyInf False | Some r \<Rightarrow> PyFloat (- r))
      else (case round_mag q of None \<Rightarrow> PyInf True | Some r \<Rightarrow> PyFloat r))"

text \<open>\<^verbatim>\<open>float(x)\<close> as arithmetic applies it to an operand: an integer too large for a
  double raises OverflowError.\<close>

fun to_float :: "pynum \<Rightarrow> exn + pynum" where
  "to_float (PyInt i) =
     (case round_double (of_int i) of PyInf b \<Rightarrow> Inl OverflowError | r \<Rightarrow> Inr r)"
| "to_float x = Inr x"

fun py_neg :: "pynum \<Rightarrow> pynum" where
  "py_neg (PyInt i) = PyInt (- i)"
| "py_neg (PyFloat q) = PyFloat (- q)"
| "py_neg (PyInf b) = PyInf (\<not> b)"
| "py_neg PyNaN = PyNaN"

text \<open>The sum of two floats.\<close>

fun float_add :: "pynum \<Rightarrow> pynum \<Rightarrow> pynum" where
  "float_add PyNaN y = PyNaN"
| "float_add x PyNaN = PyNaN"
| "float_add (PyInf b) (PyInf c) = (if b = c then PyInf b else PyNaN)"
| "float_add (PyInf b) y = PyInf b"
| "float_add x (PyInf c) = PyInf c"
| "float_add x y = round_double (num_value x + num_value y)"

text \<open>\<^verbatim>\<open>x + y\<close> and \<^verbatim>\<open>x - y\<close>: exact on two integers, on floats otherwise.\<close>

fun py_add :: "pynum \<Rightarrow> pynum \<Rightarrow> exn + pynum" where
  "py_add (PyInt a) (PyInt b) = Inr (PyInt (a + b))"
| "py_add x y =
     (case to_float x of
        Inl e \<Rightarrow> Inl e
      | Inr fx \<Rightarrow> (case to_float y of Inl e \<Rightarrow> Inl e | Inr fy \<Rightarrow> Inr (float_add fx fy)))"

fun py_sub :: "pynum \<Rightarrow> pynum \<Rightarrow> exn + pynum" where
  "py_sub (PyInt a) (PyInt b) = Inr (PyInt (a - b))"
| "py_sub x y =
     (case to_float x of
        Inl e \<Rightarrow> Inl e
      | Inr fx \<Rightarrow> (case to_float y of Inl e \<Rightarrow> Inl e | Inr fy \<Rightarrow> Inr (float_add fx (py_neg fy))))"

text \<open>\<^verbatim>\<open>x < y\<close> and \<^verbatim>\<open>x <= y\<close>: false whenever an operand is NaN; an integer and a float
  are compared by their values.\<close>

fun py_less :: "pynum \<Rightarrow> pynum \<Rightarrow> bool" where
  "py_less PyNaN y = False"
| "py_less x PyNaN = False"
| "py_less (PyInf b) (PyInf c) = (\<not> b \<and> c)"
| "py_less (PyInf b) y = (\<not> b)"
| "py_less x (PyInf c) = c"
| "py_less x y = (num_value x < num_value y)"

fun py_le :: "pynum \<Rightarrow> pynum \<Rightarrow> bool" where
  "py_le PyNaN y = False"
| "py_le x PyNaN = False"
| "py_le (PyInf b) (PyInf c) = (\<not> b \<or> c)"
| "py_le (PyInf b) y = (\<not> b)"
| "py_le x (PyInf c) = c"
| "py_le x y = (num_value x \<le> num_value y)"

text \<open>\<^verbatim>\<open>d[k] += v\<close> and \<^verbatim>\<open>d[k] -= v\<close>: KeyError when \<open>k\<close> has no entry, before the
  arithmetic is done.\<close>

definition dict_add :: "string \<Rightarrow> pynum \<Rightarrow> (string \<times> pynum) list \<Rightarrow> exn + (string \<times> pynum) list" where
  "dict_add k v d =
     (case map_of d k of
        None \<Rightarrow> Inl (KeyError k)
      | Some b \<Rightarrow> (case py_add b v of Inl e \<Rightarrow> Inl e | Inr r \<Rightarrow> Inr (dict_set k r d)))"

definition dict_sub :: "string \<Rightarrow> pynum \<Rightarrow> (string \<times> pynum) list \<Rightarrow> exn + (string \<times> pynum) list" where
  "dict_sub k v d =
     (case map_of d k of
        None \<Rightarrow> Inl (KeyError k)
      | Some b \<Rightarrow> (case py_sub b v of Inl e \<Rightarrow> Inl e | Inr r \<Rightarrow> Inr (dict_set k r d)))"

subsection \<open>Data model\<close>

datatype json =
    JNull
  | JBool bool
  | JInt int
  | JFloat rat
  | JInfinity bool
  | JNaN
  | JStr string
  | JList "json list"
  | JDict "(string \<times> json) list"

datatype TransactionType = TRANSFER | SMART_CONTRACT | AI_TRAINING | QUANTUM_COMPUTING

datatype TransactionStatus = PENDING | CONFIRMED | REJECTED

fun type_value :: "TransactionType \<Rightarrow> string" where
  "type_value TRANSFER = ''transfer''"
| "type_value SMART_CONTRACT = ''smart_contract''"
| "type_value AI_TRAINING = ''ai_training''"
| "type_value QUANTUM_COMPUTING = ''quantum_computing''"

fun status_value :: "TransactionStatus \<Rightarrow> string" where
  "status_value PENDING = ''pending''"
| "status_value CONFIRMED = ''confirmed''"
| "status_value REJECTED = ''rejected''"

record transaction =
  sender :: string
  recipient :: string
  amount :: pynum
  tx_timestamp :: int
  tx_type :: TransactionType
  data :: "(string \<times> json) list"
  status :: TransactionStatus
  tx_hash :: string

record block =
  index :: int
  timestamp :: int
  transactions :: "transaction list"
  previous_hash :: string
  nonce :: int
  difficulty :: int
  hash :: string
  quantum_enhanced :: bool
  quantum_metrics :: "(string \<times> json) list"

text \<open>The files of \<^verbatim>\<open>kontour_data\<close>: \<open>None\<close> is a file that does not exist. What
  \<^verbatim>\<open>json.load\<close> reads back is what \<^verbatim>\<open>json.dump\<close> wrote.\<close>

record disk =
  blockchain_json :: "block list option"
  accounts_json :: "(string \<times> pynum) list option"

record KontourCoin =
  blockchain :: "block list"
  pending_transactions :: "transaction list"
  accounts :: "(string \<times> pynum) list"
  files :: disk

record env =
  sha256_hexdigest :: "string \<Rightarrow> string"
  py_hash :: "string \<Rightarrow> int"
  json_dumps :: "json \<Rightarrow> string"
  format_type :: "TransactionType \<Rightarrow> string"
  float_repr :: "rat \<Rightarrow> string"

subsection \<open>Rendering numbers\<close>

definition digit_char :: "int \<Rightarrow> char" where
  "digit_char d = ''0123456789abcdef'' ! nat d"

text \<open>\<^verbatim>\<open>str(n)\<close> for an integer: the decimal digits of a number that is not negative,
  and a sign before those of its negation otherwise.\<close>

function dec_digits :: "int \<Rightarrow> string" where
  "dec_digits n =
     (if n < 10 then [digit_char n] else dec_digits (n div 10) @ [digit_char (n mod 10)])"
  by pat_completeness auto
termination
  by (relation "measure nat") auto

definition str_int :: "int \<Rightarrow> string" where
  "str_int i = (if i < 0 then CHR ''-'' # dec_digits (- i) else dec_digits i)"

text \<open>\<^verbatim>\<open>hex(n)[2:]\<close> for \<open>n \<ge> 0\<close>, and \<^verbatim>\<open>s.zfill(w)\<close> for a string with no sign.\<close>

function hex_digits :: "int \<Rightarrow> string" where
  "hex_digits n =
     (if n < 16 then [digit_char n] else hex_digits (n div 16) @ [digit_char (n mod 16)])"
  by pat_completeness auto
termination
  by (relation "measure nat") auto

declare dec_digits.simps [simp del] hex_digits.simps [simp del]

definition zfill :: "nat \<Rightarrow> string \<Rightarrow> string" where
  "zfill w s = replicate (w - length s) CHR ''0'' @ s"

definition hex_digit :: "char \<Rightarrow> int option" where
  "hex_digit c = map_of
     [(CHR ''0'', 0), (CHR ''1'', 1), (CHR ''2'', 2), (CHR ''3'', 3), (CHR ''4'', 4),
      (CHR ''5'', 5), (CHR ''6'', 6), (CHR ''7'', 7), (CHR ''8'', 8), (CHR ''9'', 9),
      (CHR ''a'', 10), (CHR ''b'', 11), (CHR ''c'', 12), (CHR ''d'', 13), (CHR ''e'', 14),
      (CHR ''f'', 15), (CHR ''A'', 10), (CHR ''B'', 11), (CHR ''C'', 12), (CHR ''D'', 13),
      (CHR ''E'', 14), (CHR ''F'', 15)] c"

text \<open>\<^verbatim>\<open>int(s, 16)\<close> on a string of hexadecimal digits; the empty string and any other
  character raise ValueError.\<close>

fun int16_acc :: "int \<Rightarrow> string \<Rightarrow> exn + int" where
  "int16_acc a [] = Inr a"
| "int16_acc a (c # cs) =
     (case hex_digit c of None \<Rightarrow> Inl ValueError | Some v \<Rightarrow> int16_acc (16 * a + v) cs)"

definition int16 :: "string \<Rightarrow> exn + int" where
  "int16 s = (if s = [] then Inl ValueError else int16_acc 0 s)"

text \<open>\<^verbatim>\<open>str(x)\<close> for a number, and the number as \<^verbatim>\<open>json.dumps\<close> meets it.\<close>

fun str_num :: "env \<Rightarrow> pynum \<Rightarrow> string" where
  "str_num E (PyInt i) = str_int i"
| "str_num E (PyFloat q) = float_repr E q"
| "str_num E (PyInf b) = (if b then ''inf'' else ''-inf'')"
| "str_num E PyNaN = ''nan''"

fun json_num :: "pynum \<Rightarrow> json" where
  "json_num (PyInt i) = JInt i"
| "json_num (PyFloat q) = JFloat q"
| "json_num (PyInf b) = JInfinity b"
| "json_num PyNaN = JNaN"

subsection \<open>Accounts and transaction submission\<close>

definition get_account_balance :: "KontourCoin \<Rightarrow> string \<Rightarrow> pynum" where
  "get_account_balance s address =
     (case map_of (accounts s) address of None \<Rightarrow> PyInt 0 | Some b \<Rightarrow> b)"

definition save_blockchain :: "KontourCoin \<Rightarrow> KontourCoin" where
  "save_blockchain s = s\<lparr>files := (files s)\<lparr>blockchain_json := Some (blockchain s)\<rparr>\<rparr>"

definition save_accounts :: "KontourCoin \<Rightarrow> KontourCoin" where
  "save_accounts s = s\<lparr>files := (files s)\<lparr>accounts_json := Some (accounts s)\<rparr>\<rparr>"

definition load_blockchain :: "KontourCoin \<Rightarrow> KontourCoin" where
  "load_blockchain s =
     (case blockchain_json (files s) of None \<Rightarrow> s | Some c \<Rightarrow> s\<lparr>blockchain := c\<rparr>)"

definition load_accounts :: "KontourCoin \<Rightarrow> KontourCoin" where
  "load_accounts s =
     (case accounts_json (files s) of None \<Rightarrow> s | Some a \<Rightarrow> s\<lparr>accounts := a\<rparr>)"

text \<open>\<^verbatim>\<open>create_account\<close>: \<open>r\<close> is the string of 31 random hexadecimal digits.\<close>

definition create_account :: "string \<Rightarrow> KontourCoin \<Rightarrow> string \<times> KontourCoin" where
  "create_account r s =
     (let address = ''KTR'' @ r
      in (address, save_accounts (s\<lparr>accounts := dict_set address (PyInt 0) (accounts s)\<rparr>)))"

datatype tx_reply = TxError string | Tx transaction

text \<open>\<^verbatim>\<open>create_transaction\<close>: \<open>now\<close> is \<^verbatim>\<open>int(time.time())\<close>; \<open>dat\<close> is the optional
  \<^verbatim>\<open>data\<close> dictionary, falsy when absent or empty.\<close>

definition create_transaction ::
  "env \<Rightarrow> int \<Rightarrow> string \<Rightarrow> string \<Rightarrow> pynum \<Rightarrow> TransactionType \<Rightarrow> (string \<times> json) list option
     \<Rightarrow> KontourCoin \<Rightarrow> tx_reply \<times> KontourCoin" where
  "create_transaction E now sndr rcp amt ty dat s =
     (if py_less (get_account_balance s sndr) amt then (TxError ''Insufficient balance'', s)
      else
        let truthy = (case dat of None \<Rightarrow> False | Some d \<Rightarrow> d \<noteq> []);
            d = (case dat of None \<Rightarrow> [] | Some d \<Rightarrow> d);
            transaction_data = sndr @ rcp @ str_num E amt @ str_int now @ format_type E ty;
            transaction_data' =
              (if truthy then transaction_data @ json_dumps E (JDict d) else transaction_data);
            t = \<lparr>sender = sndr, recipient = rcp, amount = amt, tx_timestamp = now,
                 tx_type = ty, data = d, status = PENDING,
                 tx_hash = sha256_hexdigest E transaction_data'\<rparr>
        in (Tx t, s\<lparr>pending_transactions := pending_transactions s @ [t]\<rparr>))"

subsection \<open>Serialised blocks and the block hash\<close>

definition transaction_dict :: "transaction \<Rightarrow> (string \<times> json) list" where
  "transaction_dict t =
     [(''sender'', JStr (sender t)), (''recipient'', JStr (recipient t)),
      (''amount'', json_num (amount t)), (''timestamp'', JInt (tx_timestamp t)),
      (''type'', JStr (type_value (tx_type t))), (''data'', JDict (data t)),
      (''status'', JStr (status_value (status t))), (''hash'', JStr (tx_hash t))]"

definition block_dict :: "block \<Rightarrow> (string \<times> json) list" where
  "block_dict b =
     [(''index'', JInt (index b)), (''timestamp'', JInt (timestamp b)),
      (''transactions'', JList (map (\<lambda>t. JDict (transaction_dict t)) (transactions b))),
      (''previous_hash'', JStr (previous_hash b)), (''nonce'', JInt (nonce b)),
      (''difficulty'', JInt (difficulty b)), (''hash'', JStr (hash b)),
      (''quantum_enhanced'', JBool (quantum_enhanced b)),
      (''quantum_metrics'', JDict (quantum_metrics b))]"

text \<open>\<^verbatim>\<open>_calculate_hash\<close>: the digest of the block's dictionary without its
  \<^verbatim>\<open>hash\<close> entry.\<close>

definition calculate_hash :: "env \<Rightarrow> block \<Rightarrow> string" where
  "calculate_hash E b =
     sha256_hexdigest E (json_dumps E (JDict (dict_del ''hash'' (block_dict b))))"

subsection \<open>Genesis and start-up\<close>

definition genesis_block :: "env \<Rightarrow> int \<Rightarrow> block" where
  "genesis_block E now =
     (let g = \<lparr>index = 0, timestamp = now, transactions = [],
               previous_hash = replicate 64 CHR ''0'', nonce = 0, difficulty = 4,
               hash = replicate 64 CHR ''0'', quantum_enhanced = True,
               quantum_metrics = [(''mining_speedup'', JFloat 1),
                                  (''verification_accuracy'', JFloat 1)]\<rparr>
      in g\<lparr>hash := calculate_hash E g\<rparr>)"

definition initial_accounts :: "(string \<times> pynum) list" where
  "initial_accounts =
     [(''KTR1000000000000000000000000000000'', PyInt 1000000),
      (''KTR2000000000000000000000000000000'', PyInt 500000),
      (''KTR3000000000000000000000000000000'', PyInt 250000)]"

definition create_initial_accounts :: "KontourCoin \<Rightarrow> KontourCoin" where
  "create_initial_accounts s =
     save_accounts (s\<lparr>accounts := fold (\<lambda>a d. dict_set (fst a) (snd a) d) initial_accounts (accounts s)\<rparr>)"

definition create_genesis_block :: "env \<Rightarrow> int \<Rightarrow> KontourCoin \<Rightarrow> KontourCoin" where
  "create_genesis_block E now s =
     create_initial_accounts
       (save_blockchain (s\<lparr>blockchain := blockchain s @ [genesis_block E now]\<rparr>))"

text \<open>\<^verbatim>\<open>__init__\<close> on the files \<open>d\<close>: the only loader it calls is
  \<^verbatim>\<open>_load_blockchain\<close>.\<close>

definition init :: "env \<Rightarrow> int \<Rightarrow> disk \<Rightarrow> KontourCoin" where
  "init E now d =
     (let s = load_blockchain
                \<lparr>blockchain = [], pending_transactions = [], accounts = [], files = d\<rparr>
      in if blockchain s = [] then create_genesis_block E now s else s)"

definition no_files :: disk where
  "no_files = \<lparr>blockchain_json = None, accounts_json = None\<rparr>"

subsection \<open>Difficulty\<close>

text \<open>\<^verbatim>\<open>_adjust_difficulty\<close>: \<^verbatim>\<open>self.blockchain[-10:]\<close> is the whole chain when it has
  fewer than ten blocks; its first element does not exist when the chain is empty.\<close>

definition adjust_difficulty :: "KontourCoin \<Rightarrow> block \<Rightarrow> exn + int" where
  "adjust_difficulty s last_block =
     (let current_difficulty = difficulty last_block
      in if index last_block mod 10 = 0 \<and> index last_block > 0 then
           (let last_10_blocks = drop (length (blockchain s) - 10) (blockchain s)
            in if last_10_blocks = [] then Inl IndexError
               else
                 let avg_block_time =
                       (of_int (timestamp (last last_10_blocks) - timestamp (hd last_10_blocks)) :: rat) / 9
                 in if avg_block_time < 30 then Inr (current_difficulty + 1)
                    else if avg_block_time > 90 then Inr (max (current_difficulty - 1) 1)
                    else Inr current_difficulty)
         else Inr current_difficulty)"

subsection \<open>The mining oracle (quantum\_kontour\_integration.py)\<close>

definition simulate_hash :: "env \<Rightarrow> string \<Rightarrow> int \<Rightarrow> int \<Rightarrow> string" where
  "simulate_hash E dat n d =
     zfill 16 (hex_digits (py_hash E (dat @ str_int n) mod 2 ^ 64))"

definition check_hash_difficulty :: "string \<Rightarrow> int \<Rightarrow> exn + bool" where
  "check_hash_difficulty hash_value d =
     (case int16 (take 4 hash_value) of
        Inl e \<Rightarrow> Inl e
      | Inr v \<Rightarrow>
          if d + 1 = 0 then Inl ZeroDivisionError
          else Inr (v < 2 ^ 16 div (d + 1)))"

text \<open>What one call of \<^verbatim>\<open>mine_block\<close> reads from outside: three clock readings, the
  nonce measured in each iteration, and the figures reported with a success.\<close>

record mining_run =
  reward_time :: int
  reward_hash_time :: string
  block_time :: int
  measured :: "nat \<Rightarrow> int"
  mining_time :: rat
  quantum_speedup :: rat
  circuit_depth :: int

datatype mining_result =
    Success (r_nonce: int) (r_hash: string) (r_iterations: nat)
  | MaxIterationsReached

text \<open>The loop of \<^verbatim>\<open>quantum_enhanced_mining\<close>: \<open>k\<close> iterations are left, \<open>i\<close> were
  made.\<close>

fun mining_loop :: "env \<Rightarrow> (nat \<Rightarrow> int) \<Rightarrow> string \<Rightarrow> int \<Rightarrow> nat \<Rightarrow> nat \<Rightarrow> exn + mining_result" where
  "mining_loop E meas block_data d 0 i = Inr MaxIterationsReached"
| "mining_loop E meas block_data d (Suc k) i =
     (let n = meas i;
          hash_value = simulate_hash E block_data n d
      in case check_hash_difficulty hash_value d of
           Inl e \<Rightarrow> Inl e
         | Inr True \<Rightarrow> Inr (Success n hash_value (i + 1))
         | Inr False \<Rightarrow> mining_loop E meas block_data d k (i + 1))"

definition quantum_enhanced_mining ::
  "env \<Rightarrow> mining_run \<Rightarrow> string \<Rightarrow> int \<Rightarrow> nat \<Rightarrow> exn + mining_result" where
  "quantum_enhanced_mining E W block_data d max_iterations =
     mining_loop E (measured W) block_data d max_iterations 0"

subsection \<open>Mining\<close>

text \<open>The balance loop of \<^verbatim>\<open>mine_block\<close>. It returns the balances, the transactions
  with the status of each processed one flipped, and the exception that stopped it.\<close>

definition debit :: "transaction \<Rightarrow> (string \<times> pynum) list \<Rightarrow> exn + (string \<times> pynum) list" where
  "debit t acc =
     (if sender t \<noteq> ''NETWORK'' then dict_sub (sender t) (amount t) acc else Inr acc)"

definition credit :: "transaction \<Rightarrow> (string \<times> pynum) list \<Rightarrow> exn + (string \<times> pynum) list" where
  "credit t acc = dict_add (recipient t) (amount t) acc"

fun commit_transactions ::
  "(string \<times> pynum) list \<Rightarrow> transaction list
     \<Rightarrow> (string \<times> pynum) list \<times> transaction list \<times> exn option" where
  "commit_transactions acc [] = (acc, [], None)"
| "commit_transactions acc (t # ts) =
     (case debit t acc of
        Inl e \<Rightarrow> (acc, t # ts, Some e)
      | Inr acc1 \<Rightarrow>
          (case credit t acc1 of
             Inl e \<Rightarrow> (acc1, t # ts, Some e)
           | Inr acc2 \<Rightarrow>
               (case commit_transactions acc2 ts of
                  (acc3, ts', e) \<Rightarrow> (acc3, t\<lparr>status := CONFIRMED\<rparr> # ts', e))))"

datatype mine_reply = MineError string | Mined block

definition reward_transaction :: "env \<Rightarrow> mining_run \<Rightarrow> string \<Rightarrow> transaction" where
  "reward_transaction E W miner_address =
     \<lparr>sender = ''NETWORK'', recipient = miner_address, amount = PyInt 50,
      tx_timestamp = reward_time W, tx_type = TRANSFER,
      data = [(''reward'', JBool True)], status = CONFIRMED,
      tx_hash = sha256_hexdigest E (''REWARD'' @ miner_address @ reward_hash_time W)\<rparr>"

text \<open>The candidate block of \<^verbatim>\<open>mine_block\<close>, as it is serialised for the oracle.\<close>

definition candidate_block ::
  "mining_run \<Rightarrow> block \<Rightarrow> transaction list \<Rightarrow> int \<Rightarrow> block" where
  "candidate_block W last_block transactions_to_mine d =
     \<lparr>index = index last_block + 1, timestamp = block_time W,
      transactions = transactions_to_mine, previous_hash = hash last_block,
      nonce = 0, difficulty = d, hash = [], quantum_enhanced = True,
      quantum_metrics = []\<rparr>"

text \<open>The success branch of \<^verbatim>\<open>mine_block\<close>: the block is appended with the
  oracle's nonce and hash, then the balances are updated, then the pool is cleared and
  both files are written. An exception in the balance loop leaves the block appended,
  the balances as far as the loop came, and the pool as it was.\<close>

definition commit_block ::
  "mining_run \<Rightarrow> block \<Rightarrow> int \<Rightarrow> string \<Rightarrow> KontourCoin \<Rightarrow> (exn + mine_reply) \<times> KontourCoin" where
  "commit_block W new_block n h s =
     (case commit_transactions (accounts s) (transactions new_block) of
        (acc, txs, ex) \<Rightarrow>
          (let mined = new_block
                 \<lparr>nonce := n, hash := h, transactions := txs,
                  quantum_metrics :=
                    [(''mining_speedup'', JFloat (quantum_speedup W)),
                     (''mining_time'', JFloat (mining_time W)),
                     (''circuit_depth'', JInt (circuit_depth W)),
                     (''circuit_width'', JInt (min (difficulty new_block + 4) 20))]\<rparr>;
               s1 = s\<lparr>blockchain := blockchain s @ [mined], accounts := acc\<rparr>
           in (case ex of
                 Some e \<Rightarrow>
                   (Inl e, s1\<lparr>pending_transactions :=
                                take (length (pending_transactions s)) txs\<rparr>)
               | None \<Rightarrow>
                   (Inr (Mined mined),
                    save_accounts (save_blockchain (s1\<lparr>pending_transactions := []\<rparr>))))))"

definition mine_block ::
  "env \<Rightarrow> mining_run \<Rightarrow> string \<Rightarrow> KontourCoin \<Rightarrow> (exn + mine_reply) \<times> KontourCoin" where
  "mine_block E W miner_address s =
     (if pending_transactions s = [] then
        (Inr (MineError ''No pending transactions to mine''), s)
      else if blockchain s = [] then (Inl IndexError, s)
      else
        (let last_block = last (blockchain s);
             transactions_to_mine =
               pending_transactions s @ [reward_transaction E W miner_address]
         in (case adjust_difficulty s last_block of
               Inl e \<Rightarrow> (Inl e, s)
             | Inr d \<Rightarrow>
                 (let new_block = candidate_block W last_block transactions_to_mine d;
                      block_data = json_dumps E (JDict (block_dict new_block))
                  in (case quantum_enhanced_mining E W block_data d 100 of
                        Inl e \<Rightarrow> (Inl e, s)
                      | Inr MaxIterationsReached \<Rightarrow> (Inr (MineError ''Mining failed''), s)
                      | Inr (Success n h it) \<Rightarrow> commit_block W new_block n h s)))))"

subsection \<open>Sequences of operations\<close>

datatype op =
    CreateAccount string
  | CreateTransaction int string string pynum TransactionType "(string \<times> json) list option"
  | MineBlock mining_run string

datatype reply = Address string | Submitted tx_reply | MineResult "exn + mine_reply"

fun exec_op :: "env \<Rightarrow> op \<Rightarrow> KontourCoin \<Rightarrow> reply \<times> KontourCoin" where
  "exec_op E (CreateAccount r) s =
     (case create_account r s of (a, s') \<Rightarrow> (Address a, s'))"
| "exec_op E (CreateTransaction now sndr rcp amt ty dat) s =
     (case create_transaction E now sndr rcp amt ty dat s of (r, s') \<Rightarrow> (Submitted r, s'))"
| "exec_op E (MineBlock W miner_address) s =
     (case mine_block E W miner_address s of (r, s') \<Rightarrow> (MineResult r, s'))"

fun run :: "env \<Rightarrow> op list \<Rightarrow> KontourCoin \<Rightarrow> reply list \<times> KontourCoin" where
  "run E [] s = ([], s)"
| "run E (x # xs) s =
     (case exec_op E x s of
        (r, s1) \<Rightarrow> (case run E xs s1 of (rs, s2) \<Rightarrow> (r # rs, s2)))"

text \<open>The states a ledger started without files goes through.\<close>

inductive reachable :: "env \<Rightarrow> KontourCoin \<Rightarrow> bool" for E :: env where
  start: "reachable E (init E now no_files)"
| step: "reachable E s \<Longrightarrow> reachable E (snd (exec_op E x s))"

subsection \<open>Notions the properties are stated with\<close>

text \<open>The exact sum of the balances, balances that pass the test \<^verbatim>\<open>0 <= balance\<close>,
  balances and amounts that are integers, and a reply that carries a transaction.\<close>

definition total_balance :: "KontourCoin \<Rightarrow> rat" where
  "total_balance s = sum_list (map (\<lambda>kv. num_value (snd kv)) (accounts s))"


definition integral :: "(string \<times> pynum) list \<Rightarrow> bool" where
  "integral acc = list_all (\<lambda>kv. is_int (snd kv)) acc"

definition integral_amounts :: "transaction list \<Rightarrow> bool" where
  "integral_amounts ts = list_all (\<lambda>t. is_int (amount t)) ts"


fun is_mined :: "reply \<Rightarrow> bool" where
  "is_mined (MineResult (Inr (Mined b))) = True"
| "is_mined r = False"

fun is_raised :: "reply \<Rightarrow> bool" where
  "is_raised (MineResult (Inl e)) = True"
| "is_raised r = False"

definition mined_count :: "reply list \<Rightarrow> nat" where
  "mined_count rs = length (filter is_mined rs)"

text \<open>What the oracle answers to the call \<^verbatim>\<open>mine_block\<close> makes in state \<open>s\<close>.\<close>

definition oracle_answer :: "env \<Rightarrow> mining_run \<Rightarrow> string \<Rightarrow> KontourCoin \<Rightarrow> exn + mining_result" where
  "oracle_answer E W miner_address s =
     (case adjust_difficulty s (last (blockchain s)) of
        Inl e \<Rightarrow> Inl e
      | Inr d \<Rightarrow>
          quantum_enhanced_mining E W
            (json_dumps E (JDict (block_dict
               (candidate_block W (last (blockchain s))
                  (pending_transactions s @ [reward_transaction E W miner_address]) d))))
            d 100)"

text \<open>The retargeting policy in the words of the specification: the chain is indexed by
  block height, and the window starts at height \<open>tip.index - 9\<close>.\<close>

definition next_difficulty :: "block list \<Rightarrow> int" where
  "next_difficulty chain =
     (let tip = last chain
      in if index tip mod 10 = 0 \<and> index tip > 0 then
           (let avg = (of_int (timestamp tip - timestamp (chain ! nat (index tip - 9))) :: rat) / 9
            in if avg < 30 then difficulty tip + 1
               else if avg > 90 then max (difficulty tip - 1) 1
               else difficulty tip)
         else difficulty tip)"



text \<open>A run in which no mining call raises, no created address is already in use, every
  submitted amount is an integer and no submission with a non-zero amount names the
  network as its sender.\<close>

fun plain_op :: "op \<Rightarrow> KontourCoin \<Rightarrow> bool" where
  "plain_op (CreateAccount r) s = (map_of (accounts s) (''KTR'' @ r) = None)"
| "plain_op (CreateTransaction now sndr rcp amt ty dat) s =
     (is_int amt \<and> (sndr \<noteq> ''NETWORK'' \<or> amt = PyInt 0))"
| "plain_op (MineBlock W m) s = True"

fun plain_run :: "env \<Rightarrow> op list \<Rightarrow> KontourCoin \<Rightarrow> bool" where
  "plain_run E [] s = True"
| "plain_run E (x # xs) s =
     (plain_op x s \<and> \<not> is_raised (fst (exec_op E x s)) \<and> plain_run E xs (snd (exec_op E x s)))"

text \<open>The amounts a batch issues in the network's name, and a batch that issues none.\<close>

definition issued :: "transaction list \<Rightarrow> rat" where
  "issued ts =
     sum_list (map (\<lambda>t. num_value (amount t)) (filter (\<lambda>t. sender t = ''NETWORK'') ts))"

definition no_network_issue :: "transaction list \<Rightarrow> bool" where
  "no_network_issue ts = list_all (\<lambda>t. sender t \<noteq> ''NETWORK'' \<or> amount t = PyInt 0) ts"

text \<open>A chain whose blocks are numbered by their position and whose difficulties are
  at least 1.\<close>

definition chain_ok :: "block list \<Rightarrow> bool" where
  "chain_ok c \<longleftrightarrow>
     c \<noteq> [] \<and> map index c = map int [0..<length c] \<and> list_all (\<lambda>b. 1 \<le> difficulty b) c"

subsection \<open>Concrete inputs\<close>

text \<open>An environment to evaluate the model in. Its functions stand for the library's:
  the digest has the 64 hexadecimal digits of a SHA-256 digest, the rendering of a float
  is not used by any property, and the builtin hash
  tells a text ending in \<open>1\<close> from the others, so that a measured nonce of 0 passes the
  difficulty test and a nonce of 1 does not.\<close>

definition sample_env :: env where
  "sample_env =
     \<lparr>sha256_hexdigest = (\<lambda>x. replicate 64 CHR ''a''),
      py_hash = (\<lambda>x. if x \<noteq> [] \<and> last x = CHR ''1'' then - 1 else 0),
      json_dumps = (\<lambda>j. ''{}''),
      format_type = type_value,
      float_repr = (\<lambda>q. ''0.0'')\<rparr>"

definition lucky_run :: "int \<Rightarrow> mining_run" where
  "lucky_run now =
     \<lparr>reward_time = now, reward_hash_time = str_int now @ ''.25'', block_time = now,
      measured = (\<lambda>i. 0), mining_time = 1 / 4, quantum_speedup = 2, circuit_depth = 30\<rparr>"

definition unlucky_run :: "int \<Rightarrow> mining_run" where
  "unlucky_run now = (lucky_run now)\<lparr>measured := (\<lambda>i. 1)\<rparr>"

definition addr_A :: string where "addr_A = ''KTR1000000000000000000000000000000''"
definition addr_B :: string where "addr_B = ''KTR2000000000000000000000000000000''"
definition rand_M :: string where "rand_M = ''0123456789ABCDEF0123456789ABCDE''"
definition addr_M :: string where "addr_M = ''KTR'' @ rand_M"

definition genesis_state :: KontourCoin where
  "genesis_state = init sample_env 1700000000 no_files"

text \<open>The scenario of the specification, with the miner's account created first.\<close>

definition transfer_ops :: "op list" where
  "transfer_ops =
     [CreateAccount rand_M,
      CreateTransaction 1700000010 addr_A addr_B (PyInt 100) TRANSFER None,
      MineBlock (lucky_run 1700000020) addr_M]"

text \<open>The same scenario with a miner address that has no account.\<close>

definition fresh_miner_ops :: "op list" where
  "fresh_miner_ops =
     [CreateTransaction 1700000010 addr_A addr_B (PyInt 100) TRANSFER None,
      MineBlock (lucky_run 1700000020) ''M'']"

text \<open>Two submissions of the sender's whole balance, then a block.\<close>

definition overdraw_ops :: "op list" where
  "overdraw_ops =
     [CreateAccount rand_M,
      CreateTransaction 1700000010 addr_A addr_B (PyInt 1000000) TRANSFER None,
      CreateTransaction 1700000011 addr_A addr_B (PyInt 1000000) TRANSFER None,
      MineBlock (lucky_run 1700000020) addr_M]"

text \<open>A submission in the network's name with a negative amount, then a block.\<close>

definition network_ops :: "op list" where
  "network_ops =
     [CreateAccount rand_M,
      CreateTransaction 1700000010 ''NETWORK'' addr_A (PyInt (- 5)) TRANSFER None,
      MineBlock (lucky_run 1700000020) addr_M]"

text \<open>A transfer of the float nearest to one thousandth, then a block.\<close>

definition rounding_ops :: "op list" where
  "rounding_ops =
     [CreateAccount rand_M,
      CreateTransaction 1700000010 addr_A addr_B (round_double (1 / 1000)) TRANSFER None,
      MineBlock (lucky_run 1700000020) addr_M]"

text \<open>The transfer scenario before the block is mined: one transaction is pending.\<close>

definition pending_state :: KontourCoin where
  "pending_state = snd (run sample_env (take 2 transfer_ops) genesis_state)"

text \<open>The same scenario after the block is mined.\<close>

definition mined_state :: KontourCoin where
  "mined_state = snd (mine_block sample_env (lucky_run 1700000020) addr_M pending_state)"

text \<open>Ten blocks mined ten seconds apart, and an eleventh transfer waiting.\<close>

definition ten_blocks_ops :: "op list" where
  "ten_blocks_ops =
     CreateAccount rand_M #
     concat (map (\<lambda>i. [CreateTransaction (1700000000 + 10 * i) addr_A addr_B (PyInt 1) TRANSFER None,
                        MineBlock (lucky_run (1700000005 + 10 * i)) addr_M]) [1..10])
     @ [CreateTransaction 1700000110 addr_A addr_B (PyInt 1) TRANSFER None]"

definition ten_blocks_state :: KontourCoin where
  "ten_blocks_state = snd (run sample_env ten_blocks_ops genesis_state)"

section \<open>Properties\<close>

subsection \<open>What one call of mine\_block does\<close>

lemma mine_block_empty_pool:
  "pending_transactions s = [] \<Longrightarrow>
     mine_block E W m s = (Inr (MineError ''No pending transactions to mine''), s)"
  by (simp add: mine_block_def)

lemma mine_block_oracle_failure:
  assumes "pending_transactions s \<noteq> []" and "blockchain s \<noteq> []"
    and "oracle_answer E W m s = Inr MaxIterationsReached"
  shows "mine_block E W m s = (Inr (MineError ''Mining failed''), s)"
  using assms
  by (auto simp: mine_block_def oracle_answer_def Let_def split: sum.splits)

lemma mine_block_oracle_success:
  assumes "pending_transactions s \<noteq> []" and "blockchain s \<noteq> []"
    and "oracle_answer E W m s = Inr (Success n h it)"
  shows "\<exists>d. adjust_difficulty s (last (blockchain s)) = Inr d \<and>
     mine_block E W m s =
       commit_block W
         (candidate_block W (last (blockchain s))
            (pending_transactions s @ [reward_transaction E W m]) d) n h s"
  using assms
  by (auto simp: mine_block_def oracle_answer_def Let_def split: sum.splits)

lemma commit_block_chain:
  "blockchain (snd (commit_block W nb n h s)) =
     blockchain s @ [last (blockchain (snd (commit_block W nb n h s)))]
   \<and> nonce (last (blockchain (snd (commit_block W nb n h s)))) = n
   \<and> hash (last (blockchain (snd (commit_block W nb n h s)))) = h"
  by (auto simp: commit_block_def Let_def save_accounts_def save_blockchain_def
      split: prod.splits option.splits)

lemma length_hex_digits:
  "0 < k \<Longrightarrow> n < 16 ^ k \<Longrightarrow> length (hex_digits n) \<le> k"
proof (induction k arbitrary: n)
  case 0
  then show ?case by simp
next
  case (Suc k)
  show ?case
  proof (cases "n < 16")
    case True
    then show ?thesis by (subst hex_digits.simps) simp
  next
    case False
    with Suc.prems have "0 < k" by (cases k) auto
    moreover from Suc.prems have "n div 16 < 16 ^ k" by simp
    ultimately have "length (hex_digits (n div 16)) \<le> k" by (rule Suc.IH)
    with False show ?thesis by (subst hex_digits.simps) simp
  qed
qed

lemma length_simulate_hash: "length (simulate_hash E dat n d) = 16"
proof -
  have "py_hash E (dat @ str_int n) mod 2 ^ 64 < 16 ^ 16" by simp
  then have "length (hex_digits (py_hash E (dat @ str_int n) mod 2 ^ 64)) \<le> 16"
    by (intro length_hex_digits) simp_all
  then show ?thesis by (simp add: simulate_hash_def zfill_def)
qed

lemma mining_loop_success:
  "mining_loop E meas dat d k i = Inr (Success n h it) \<Longrightarrow>
     h = simulate_hash E dat n d \<and> check_hash_difficulty h d = Inr True"
  by (induction k arbitrary: i) (auto simp: Let_def split: sum.splits bool.splits if_splits)

lemma commit_transactions_statuses:
  "commit_transactions acc ts = (acc', ts', None) \<Longrightarrow>
     ts' = map (\<lambda>t. t\<lparr>status := CONFIRMED\<rparr>) ts"
  by (induction ts arbitrary: acc acc' ts') (auto split: sum.splits prod.splits)

lemma mine_block_mined:
  assumes "fst (mine_block E W m s) = Inr (Mined b)"
  shows "\<exists>n h it acc.
     oracle_answer E W m s = Inr (Success n h it)
     \<and> adjust_difficulty s (last (blockchain s)) = Inr (difficulty b)
     \<and> pending_transactions s \<noteq> [] \<and> blockchain s \<noteq> []
     \<and> commit_transactions (accounts s) (pending_transactions s @ [reward_transaction E W m])
          = (acc, transactions b, None)
     \<and> nonce b = n \<and> hash b = h
     \<and> blockchain (snd (mine_block E W m s)) = blockchain s @ [b]
     \<and> accounts (snd (mine_block E W m s)) = acc
     \<and> pending_transactions (snd (mine_block E W m s)) = []"
  using assms
  by (auto simp: mine_block_def oracle_answer_def commit_block_def candidate_block_def Let_def
      save_accounts_def save_blockchain_def
      split: if_splits sum.splits mining_result.splits prod.splits option.splits)

subsection \<open>Unknown addresses\<close>

lemma py_le_zero:
  "py_le (PyInt 0) x \<longleftrightarrow>
     (case x of PyInt i \<Rightarrow> 0 \<le> i | PyFloat q \<Rightarrow> 0 \<le> q | PyInf b \<Rightarrow> b | PyNaN \<Rightarrow> False)"
  by (cases x) auto





subsection \<open>Errors leave the state as it was\<close>

text \<open>
  C9: each of the three domain errors comes back as an error value together with the
  state the call started from: a submission above the sender's balance, a mining call on
  an empty pool, and a mining call whose nonce search the oracle gives up. The chain, the
  balances and the pool are fields of that state.
\<close>

theorem domain_errors_leave_state_unchanged:
  "(py_less (get_account_balance s1 a) amt \<longrightarrow>
      create_transaction E now a b amt ty dat s1 = (TxError ''Insufficient balance'', s1))
   \<and> (pending_transactions s2 = [] \<longrightarrow>
      mine_block E W2 m2 s2 = (Inr (MineError ''No pending transactions to mine''), s2))
   \<and> (pending_transactions s3 \<noteq> [] \<and> blockchain s3 \<noteq> []
        \<and> oracle_answer E W3 m3 s3 = Inr MaxIterationsReached \<longrightarrow>
      mine_block E W3 m3 s3 = (Inr (MineError ''Mining failed''), s3))"
  by (simp add: create_transaction_def mine_block_empty_pool mine_block_oracle_failure)

theorem domain_errors_leave_state_unchanged_witness:
  "py_less (get_account_balance genesis_state addr_A) (PyInt 1000001)
   \<and> create_transaction sample_env 1700000010 addr_A addr_B (PyInt 1000001) TRANSFER None
         genesis_state
       = (TxError ''Insufficient balance'', genesis_state)
   \<and> pending_transactions genesis_state = []
   \<and> mine_block sample_env (lucky_run 1700000020) addr_M genesis_state
       = (Inr (MineError ''No pending transactions to mine''), genesis_state)
   \<and> pending_transactions pending_state \<noteq> [] \<and> blockchain pending_state \<noteq> []
   \<and> oracle_answer sample_env (unlucky_run 1700000020) addr_M pending_state
       = Inr MaxIterationsReached
   \<and> mine_block sample_env (unlucky_run 1700000020) addr_M pending_state
       = (Inr (MineError ''Mining failed''), pending_state)"
proof -
  have h1: "py_less (get_account_balance genesis_state addr_A) (PyInt 1000001)" by code_simp
  have h2: "pending_transactions genesis_state = []" by code_simp
  have h3: "pending_transactions pending_state \<noteq> []" by code_simp
  have h4: "blockchain pending_state \<noteq> []" by code_simp
  have h5: "oracle_answer sample_env (unlucky_run 1700000020) addr_M pending_state
       = Inr MaxIterationsReached" by code_simp
  from h1 h2 h3 h4 h5
    domain_errors_leave_state_unchanged [of genesis_state addr_A "PyInt 1000001" sample_env
      1700000010 addr_B TRANSFER None genesis_state "lucky_run 1700000020" addr_M
      pending_state "unlucky_run 1700000020" addr_M]
  show ?thesis by blast
qed

subsection \<open>The oracle's answer is taken as it is\<close>

text \<open>
  C1 as the code has it: when the nonce search reports success, the block is appended with
  the nonce and the hash the oracle returned; no hash is recomputed and nothing is
  compared. The only oracle failure is the oracle's own report, and then the call returns
  the error and the state it started from.
\<close>

theorem mine_block_trusts_oracle:
  "(pending_transactions s \<noteq> [] \<and> blockchain s \<noteq> []
      \<and> oracle_answer E W m s = Inr (Success n h it) \<longrightarrow>
        blockchain (snd (mine_block E W m s))
          = blockchain s @ [last (blockchain (snd (mine_block E W m s)))]
        \<and> nonce (last (blockchain (snd (mine_block E W m s)))) = n
        \<and> hash (last (blockchain (snd (mine_block E W m s)))) = h)
   \<and> (pending_transactions s' \<noteq> [] \<and> blockchain s' \<noteq> []
      \<and> oracle_answer E W' m' s' = Inr MaxIterationsReached \<longrightarrow>
        mine_block E W' m' s' = (Inr (MineError ''Mining failed''), s'))"
proof (intro conjI impI)
  assume a: "pending_transactions s \<noteq> [] \<and> blockchain s \<noteq> []
      \<and> oracle_answer E W m s = Inr (Success n h it)"
  then obtain d where
    "mine_block E W m s =
       commit_block W
         (candidate_block W (last (blockchain s))
            (pending_transactions s @ [reward_transaction E W m]) d) n h s"
    using mine_block_oracle_success [of s E W m n h it] by blast
  then show
    "blockchain (snd (mine_block E W m s))
          = blockchain s @ [last (blockchain (snd (mine_block E W m s)))]"
    "nonce (last (blockchain (snd (mine_block E W m s)))) = n"
    "hash (last (blockchain (snd (mine_block E W m s)))) = h"
    using commit_block_chain by simp_all
next
  assume "pending_transactions s' \<noteq> [] \<and> blockchain s' \<noteq> []
      \<and> oracle_answer E W' m' s' = Inr MaxIterationsReached"
  then show "mine_block E W' m' s' = (Inr (MineError ''Mining failed''), s')"
    by (simp add: mine_block_oracle_failure)
qed

theorem mine_block_trusts_oracle_witness:
  "pending_transactions pending_state \<noteq> [] \<and> blockchain pending_state \<noteq> []
   \<and> oracle_answer sample_env (lucky_run 1700000020) addr_M pending_state
        = Inr (Success 0 ''0000000000000000'' 1)
   \<and> blockchain mined_state = blockchain pending_state @ [last (blockchain mined_state)]
   \<and> nonce (last (blockchain mined_state)) = 0
   \<and> hash (last (blockchain mined_state)) = ''0000000000000000''
   \<and> oracle_answer sample_env (unlucky_run 1700000020) addr_M pending_state
        = Inr MaxIterationsReached
   \<and> mine_block sample_env (unlucky_run 1700000020) addr_M pending_state
        = (Inr (MineError ''Mining failed''), pending_state)"
proof -
  have h1: "pending_transactions pending_state \<noteq> []" by code_simp
  have h2: "blockchain pending_state \<noteq> []" by code_simp
  have h3: "oracle_answer sample_env (lucky_run 1700000020) addr_M pending_state
        = Inr (Success 0 ''0000000000000000'' 1)" by code_simp
  have h4: "oracle_answer sample_env (unlucky_run 1700000020) addr_M pending_state
        = Inr MaxIterationsReached" by code_simp
  from h1 h2 h3 h4
    mine_block_trusts_oracle [of pending_state sample_env "lucky_run 1700000020" addr_M
      0 "''0000000000000000''" 1 pending_state "unlucky_run 1700000020" addr_M]
  show ?thesis unfolding mined_state_def by blast
qed

text \<open>
  C1 as stated fails: in the transfer scenario the mining call returns a block, and the
  hash recomputed from the committed block differs from the hash it carries.
\<close>

theorem mine_block_commits_unchecked_hash:
  "is_mined (fst (run sample_env transfer_ops genesis_state) ! 2)
   \<and> calculate_hash sample_env (last (blockchain (snd (run sample_env transfer_ops genesis_state))))
       \<noteq> hash (last (blockchain (snd (run sample_env transfer_ops genesis_state))))"
  by code_simp

subsection \<open>The whole pool goes into the block\<close>

text \<open>
  C2 as the code has it: a mining call that returns a block has put every pending
  transaction into it, in order and marked confirmed, followed by the reward; no balance
  is looked at before the block is assembled, and the pool is empty afterwards.
\<close>

theorem mine_block_takes_whole_pool:
  assumes "fst (mine_block E W m s) = Inr (Mined b)"
  shows "transactions b
       = map (\<lambda>t. t\<lparr>status := CONFIRMED\<rparr>) (pending_transactions s @ [reward_transaction E W m])
     \<and> blockchain (snd (mine_block E W m s)) = blockchain s @ [b]
     \<and> pending_transactions (snd (mine_block E W m s)) = []"
  using mine_block_mined [OF assms] commit_transactions_statuses by blast

theorem mine_block_takes_whole_pool_witness:
  "fst (mine_block sample_env (lucky_run 1700000020) addr_M pending_state)
     = Inr (Mined (last (blockchain mined_state)))
   \<and> transactions (last (blockchain mined_state))
       = map (\<lambda>t. t\<lparr>status := CONFIRMED\<rparr>)
           (pending_transactions pending_state
              @ [reward_transaction sample_env (lucky_run 1700000020) addr_M])
   \<and> blockchain mined_state = blockchain pending_state @ [last (blockchain mined_state)]
   \<and> pending_transactions mined_state = []"
proof -
  have h: "fst (mine_block sample_env (lucky_run 1700000020) addr_M pending_state)
     = Inr (Mined (last (blockchain mined_state)))" by code_simp
  from h mine_block_takes_whole_pool [OF h] show ?thesis
    unfolding mined_state_def by blast
qed

text \<open>
  C2 as stated fails: two pending transfers of the sender's whole balance are both mined,
  the second one overdrawing the account, and neither stays in the pool.
\<close>

theorem overdrawing_transaction_is_mined:
  "get_account_balance genesis_state addr_A = PyInt 1000000
   \<and> map sender (transactions (last (blockchain (snd (run sample_env overdraw_ops genesis_state)))))
       = [addr_A, addr_A, ''NETWORK'']
   \<and> map amount (transactions (last (blockchain (snd (run sample_env overdraw_ops genesis_state)))))
       = [PyInt 1000000, PyInt 1000000, PyInt 50]
   \<and> pending_transactions (snd (run sample_env overdraw_ops genesis_state)) = []
   \<and> get_account_balance (snd (run sample_env overdraw_ops genesis_state)) addr_A
       = PyInt (- 1000000)"
  by code_simp

subsection \<open>Hash integrity\<close>

text \<open>
  C4 as the code has it: the genesis block carries the digest of its own dictionary
  without the hash entry. A mined block carries the oracle's simulated hash of the
  serialised candidate block followed by the nonce, which has 16 hexadecimal digits; with
  a digest function of 64 digits the recomputed hash of a mined block never equals it.
\<close>

theorem hash_integrity_genesis_only:
  assumes "fst (mine_block E W m s) = Inr (Mined b)"
  shows "calculate_hash E (genesis_block E now) = hash (genesis_block E now)
     \<and> hash b = simulate_hash E
         (json_dumps E (JDict (block_dict
            (candidate_block W (last (blockchain s))
               (pending_transactions s @ [reward_transaction E W m]) (difficulty b)))))
         (nonce b) (difficulty b)
     \<and> length (hash b) = 16
     \<and> ((\<forall>x. length (sha256_hexdigest E x) = 64) \<longrightarrow> calculate_hash E b \<noteq> hash b)"
proof -
  have g: "calculate_hash E (genesis_block E now) = hash (genesis_block E now)"
    by (simp add: genesis_block_def Let_def calculate_hash_def block_dict_def dict_del_def)
  from mine_block_mined [OF assms] obtain it where
    o: "oracle_answer E W m s = Inr (Success (nonce b) (hash b) it)"
    and d: "adjust_difficulty s (last (blockchain s)) = Inr (difficulty b)"
    by blast
  from o d have
    "mining_loop E (measured W)
       (json_dumps E (JDict (block_dict
            (candidate_block W (last (blockchain s))
               (pending_transactions s @ [reward_transaction E W m]) (difficulty b)))))
       (difficulty b) 100 0 = Inr (Success (nonce b) (hash b) it)"
    by (simp add: oracle_answer_def quantum_enhanced_mining_def)
  then have h: "hash b = simulate_hash E
         (json_dumps E (JDict (block_dict
            (candidate_block W (last (blockchain s))
               (pending_transactions s @ [reward_transaction E W m]) (difficulty b)))))
         (nonce b) (difficulty b)"
    using mining_loop_success by blast
  then have l: "length (hash b) = 16"
    using length_simulate_hash by simp
  have "calculate_hash E b \<noteq> hash b" if "\<forall>x. length (sha256_hexdigest E x) = 64"
  proof
    assume "calculate_hash E b = hash b"
    then have "length (calculate_hash E b) = 16" using l by simp
    moreover have "length (calculate_hash E b) = 64"
      using that by (simp add: calculate_hash_def)
    ultimately show False by simp
  qed
  with g h l show ?thesis by blast
qed

theorem hash_integrity_genesis_only_witness:
  "fst (mine_block sample_env (lucky_run 1700000020) addr_M pending_state)
     = Inr (Mined (last (blockchain mined_state)))
   \<and> calculate_hash sample_env (genesis_block sample_env 1700000000)
       = hash (genesis_block sample_env 1700000000)
   \<and> length (hash (last (blockchain mined_state))) = 16
   \<and> calculate_hash sample_env (last (blockchain mined_state))
       \<noteq> hash (last (blockchain mined_state))"
proof -
  have h: "fst (mine_block sample_env (lucky_run 1700000020) addr_M pending_state)
     = Inr (Mined (last (blockchain mined_state)))" by code_simp
  have s: "\<forall>x. length (sha256_hexdigest sample_env x) = 64"
    by (simp add: sample_env_def)
  from h s hash_integrity_genesis_only [OF h, of 1700000000] show ?thesis
    by blast
qed

text \<open>
  C4 as stated fails: the block at height 1 of a chain with one mined block does not
  carry the hash recomputed from its other fields.
\<close>

theorem mined_block_hash_is_not_recomputed:
  "index (blockchain (snd (run sample_env network_ops genesis_state)) ! 1) = 1
   \<and> hash (blockchain (snd (run sample_env network_ops genesis_state)) ! 1)
       = ''0000000000000000''
   \<and> calculate_hash sample_env (blockchain (snd (run sample_env network_ops genesis_state)) ! 1)
       \<noteq> hash (blockchain (snd (run sample_env network_ops genesis_state)) ! 1)"
  by code_simp

subsection \<open>Balances below zero\<close>

lemma run_Cons:
  "fst (run E (x # xs) s) = fst (exec_op E x s) # fst (run E xs (snd (exec_op E x s)))"
  "snd (run E (x # xs) s) = snd (run E xs (snd (exec_op E x s)))"
  by (simp_all split: prod.splits)

lemma exec_op_proj:
  "fst (exec_op E (CreateAccount r) s) = Address (fst (create_account r s))"
  "snd (exec_op E (CreateAccount r) s) = snd (create_account r s)"
  "fst (exec_op E (CreateTransaction now a b amt ty dat) s)
     = Submitted (fst (create_transaction E now a b amt ty dat s))"
  "snd (exec_op E (CreateTransaction now a b amt ty dat) s)
     = snd (create_transaction E now a b amt ty dat s)"
  "fst (exec_op E (MineBlock W m) s) = MineResult (fst (mine_block E W m s))"
  "snd (exec_op E (MineBlock W m) s) = snd (mine_block E W m s)"
  by (simp_all split: prod.splits)

lemma reachable_run: "reachable E s \<Longrightarrow> reachable E (snd (run E ops s))"
proof (induction ops arbitrary: s)
  case Nil
  then show ?case by simp
next
  case (Cons x xs)
  from Cons.prems have "reachable E (snd (exec_op E x s))" by (rule reachable.step)
  then have "reachable E (snd (run E xs (snd (exec_op E x s))))" by (rule Cons.IH)
  then show ?case by (simp only: run_Cons)
qed








lemma solvent_test_on_integers:
  "(case py_sub (PyInt b) (PyInt a) of Inl e \<Rightarrow> True | Inr r \<Rightarrow> py_le (PyInt 0) r) \<longleftrightarrow> a \<le> b"
  by simp














subsection \<open>The sum of the balances\<close>

lemma sum_dict_set:
  "sum_list (map (\<lambda>kv. num_value (snd kv)) (dict_set k v d))
     = sum_list (map (\<lambda>kv. num_value (snd kv)) d) + num_value v
         - (case map_of d k of None \<Rightarrow> 0 | Some b \<Rightarrow> num_value b)"
  by (induction d) (auto split: option.splits)

lemma integral_dict_set: "integral d \<Longrightarrow> is_int v \<Longrightarrow> integral (dict_set k v d)"
  by (induction d) (auto simp: integral_def)

lemma integral_lookup: "integral d \<Longrightarrow> map_of d k = Some b \<Longrightarrow> is_int b"
  by (induction d) (auto simp: integral_def split: if_splits)

lemma dict_add_integral:
  assumes "dict_add k v d = Inr d'" and "integral d" and "is_int v"
  shows "integral d'
     \<and> sum_list (map (\<lambda>kv. num_value (snd kv)) d')
         = sum_list (map (\<lambda>kv. num_value (snd kv)) d) + num_value v"
proof -
  from assms(1) obtain b where l: "map_of d k = Some b"
    by (auto simp: dict_add_def split: option.splits)
  with assms(2) have "is_int b" by (rule integral_lookup)
  with assms(3) obtain i j where ij: "b = PyInt i" "v = PyInt j"
    by (cases b; cases v) auto
  with assms(1) l have "d' = dict_set k (PyInt (i + j)) d"
    by (simp add: dict_add_def)
  with assms(2) l ij show ?thesis
    by (simp add: integral_dict_set sum_dict_set)
qed

lemma dict_sub_integral:
  assumes "dict_sub k v d = Inr d'" and "integral d" and "is_int v"
  shows "integral d'
     \<and> sum_list (map (\<lambda>kv. num_value (snd kv)) d')
         = sum_list (map (\<lambda>kv. num_value (snd kv)) d) - num_value v"
proof -
  from assms(1) obtain b where l: "map_of d k = Some b"
    by (auto simp: dict_sub_def split: option.splits)
  with assms(2) have "is_int b" by (rule integral_lookup)
  with assms(3) obtain i j where ij: "b = PyInt i" "v = PyInt j"
    by (cases b; cases v) auto
  with assms(1) l have "d' = dict_set k (PyInt (i - j)) d"
    by (simp add: dict_sub_def)
  with assms(2) l ij show ?thesis
    by (simp add: integral_dict_set sum_dict_set)
qed

lemma commit_integral:
  "commit_transactions acc ts = (acc', ts', None) \<Longrightarrow> integral acc \<Longrightarrow> integral_amounts ts \<Longrightarrow>
     integral acc'
     \<and> sum_list (map (\<lambda>kv. num_value (snd kv)) acc')
         = sum_list (map (\<lambda>kv. num_value (snd kv)) acc) + issued ts"
proof (induction ts arbitrary: acc acc' ts')
  case Nil
  then show ?case by (simp add: issued_def)
next
  case (Cons t ts)
  from Cons.prems(1) obtain acc1 acc2 ts2 where
    d: "debit t acc = Inr acc1" and c: "credit t acc1 = Inr acc2"
    and r: "commit_transactions acc2 ts = (acc', ts2, None)"
    by (auto split: sum.splits prod.splits)
  from Cons.prems(3) have i: "is_int (amount t)" and ias: "integral_amounts ts"
    by (simp_all add: integral_amounts_def)
  from d Cons.prems(2) i have 1: "integral acc1
      \<and> sum_list (map (\<lambda>kv. num_value (snd kv)) acc1)
          = sum_list (map (\<lambda>kv. num_value (snd kv)) acc)
              - (if sender t = ''NETWORK'' then 0 else num_value (amount t))"
    by (auto simp: debit_def dest: dict_sub_integral split: if_splits)
  with c i have 2: "integral acc2
      \<and> sum_list (map (\<lambda>kv. num_value (snd kv)) acc2)
          = sum_list (map (\<lambda>kv. num_value (snd kv)) acc1) + num_value (amount t)"
    by (auto simp: credit_def dest: dict_add_integral)
  with r ias have "integral acc'
      \<and> sum_list (map (\<lambda>kv. num_value (snd kv)) acc')
          = sum_list (map (\<lambda>kv. num_value (snd kv)) acc2) + issued ts"
    by (intro Cons.IH) simp_all
  with 1 2 show ?case by (simp add: issued_def)
qed

lemma issued_none: "no_network_issue ts \<Longrightarrow> issued ts = 0"
  by (induction ts) (auto simp: issued_def no_network_issue_def)

lemma issued_reward: "issued (ts @ [reward_transaction E W m]) = issued ts + 50"
  by (simp add: issued_def reward_transaction_def)

lemma integral_amounts_reward:
  "integral_amounts ts \<Longrightarrow> integral_amounts (ts @ [reward_transaction E W m])"
  by (simp add: integral_amounts_def reward_transaction_def)

lemma mine_block_error_state:
  "fst (mine_block E W m s) = Inr (MineError e) \<Longrightarrow> snd (mine_block E W m s) = s"
  by (auto simp: mine_block_def commit_block_def Let_def
      split: if_splits sum.splits mining_result.splits prod.splits option.splits)

lemma total_mine_block:
  assumes "fst (mine_block E W m s) = Inr (Mined b)"
    and "integral (accounts s)" and "integral_amounts (pending_transactions s)"
  shows "integral (accounts (snd (mine_block E W m s)))
     \<and> total_balance (snd (mine_block E W m s))
         = total_balance s + 50 + issued (pending_transactions s)"
proof -
  from mine_block_mined [OF assms(1)] obtain acc where
    c: "commit_transactions (accounts s) (pending_transactions s @ [reward_transaction E W m])
          = (acc, transactions b, None)"
    and a: "accounts (snd (mine_block E W m s)) = acc"
    by blast
  from assms(3) have "integral_amounts (pending_transactions s @ [reward_transaction E W m])"
    by (rule integral_amounts_reward)
  with c assms(2) have "integral acc
     \<and> sum_list (map (\<lambda>kv. num_value (snd kv)) acc)
         = sum_list (map (\<lambda>kv. num_value (snd kv)) (accounts s))
             + issued (pending_transactions s @ [reward_transaction E W m])"
    by (intro commit_integral)
  with a show ?thesis
    by (simp add: total_balance_def issued_reward)
qed

lemma plain_step:
  assumes "integral (accounts s)" and "integral_amounts (pending_transactions s)"
    and "no_network_issue (pending_transactions s)" and "plain_op x s"
    and "\<not> is_raised (fst (exec_op E x s))"
  shows "integral (accounts (snd (exec_op E x s)))
     \<and> integral_amounts (pending_transactions (snd (exec_op E x s)))
     \<and> no_network_issue (pending_transactions (snd (exec_op E x s)))
     \<and> total_balance (snd (exec_op E x s))
         = total_balance s + (if is_mined (fst (exec_op E x s)) then 50 else 0)"
proof (cases x)
  case (CreateAccount r)
  with assms show ?thesis
    by (simp add: exec_op_proj create_account_def Let_def save_accounts_def total_balance_def
        sum_dict_set integral_dict_set del: exec_op.simps)
next
  case (CreateTransaction now a b amt ty dat)
  with assms show ?thesis
    by (auto simp: exec_op_proj create_transaction_def Let_def total_balance_def
        no_network_issue_def integral_amounts_def simp del: exec_op.simps)
next
  case (MineBlock W m)
  show ?thesis
  proof (cases "fst (mine_block E W m s)")
    case (Inl e)
    with assms MineBlock show ?thesis by (simp add: exec_op_proj del: exec_op.simps)
  next
    case (Inr r)
    show ?thesis
    proof (cases r)
      case (MineError e)
      with Inr have "snd (mine_block E W m s) = s" by (simp add: mine_block_error_state)
      with assms MineBlock Inr MineError show ?thesis
        by (simp add: exec_op_proj del: exec_op.simps)
    next
      case (Mined b)
      with Inr have m: "fst (mine_block E W m s) = Inr (Mined b)" by simp
      from mine_block_mined [OF m]
      have "pending_transactions (snd (mine_block E W m s)) = []" by blast
      moreover from total_mine_block [OF m assms(1,2)] assms(3)
      have "integral (accounts (snd (mine_block E W m s)))
        \<and> total_balance (snd (mine_block E W m s)) = total_balance s + 50"
        by (simp add: issued_none)
      ultimately show ?thesis
        using MineBlock m
        by (simp add: exec_op_proj no_network_issue_def integral_amounts_def del: exec_op.simps)
    qed
  qed
qed

lemma mined_count_Cons:
  "mined_count (r # rs) = (if is_mined r then 1 else 0) + mined_count rs"
  by (simp add: mined_count_def)

text \<open>
  C5 as the code has it: take a state whose balances and pending amounts are integers,
  and a run in which every submitted amount is an integer, no mining call raises, no
  created address is already in use, and no transaction, pending at the start or
  submitted, names the network as sender of a non-zero amount. Then the balances stay
  integers and their sum grows by 50 for each mining call that returns a block, and by
  nothing else.
\<close>

theorem balance_conservation_in_plain_runs:
  assumes "integral (accounts s)" and "integral_amounts (pending_transactions s)"
    and "no_network_issue (pending_transactions s)" and "plain_run E ops s"
  shows "integral (accounts (snd (run E ops s)))
     \<and> total_balance (snd (run E ops s))
         = total_balance s + 50 * of_nat (mined_count (fst (run E ops s)))"
  using assms
proof (induction ops arbitrary: s)
  case Nil
  then show ?case by (simp add: mined_count_def)
next
  case (Cons x xs)
  from Cons.prems have p: "plain_op x s" "\<not> is_raised (fst (exec_op E x s))"
    "plain_run E xs (snd (exec_op E x s))" by simp_all
  from plain_step [OF Cons.prems(1,2,3) p(1) p(2)]
  have i: "integral (accounts (snd (exec_op E x s)))"
    and ia: "integral_amounts (pending_transactions (snd (exec_op E x s)))"
    and n: "no_network_issue (pending_transactions (snd (exec_op E x s)))"
    and t: "total_balance (snd (exec_op E x s))
         = total_balance s + (if is_mined (fst (exec_op E x s)) then 50 else 0)"
    by simp_all
  from Cons.IH [OF i ia n p(3)] t show ?case
    by (simp add: mined_count_Cons run_Cons del: run.simps)
qed

theorem balance_conservation_in_plain_runs_witness:
  "integral (accounts genesis_state)
   \<and> integral_amounts (pending_transactions genesis_state)
   \<and> no_network_issue (pending_transactions genesis_state)
   \<and> plain_run sample_env transfer_ops genesis_state
   \<and> mined_count (fst (run sample_env transfer_ops genesis_state)) = 1
   \<and> integral (accounts (snd (run sample_env transfer_ops genesis_state)))
   \<and> total_balance (snd (run sample_env transfer_ops genesis_state))
       = total_balance genesis_state
           + 50 * of_nat (mined_count (fst (run sample_env transfer_ops genesis_state)))"
proof -
  have h0: "integral (accounts genesis_state)" by code_simp
  have h0': "integral_amounts (pending_transactions genesis_state)" by code_simp
  have h1: "no_network_issue (pending_transactions genesis_state)" by code_simp
  have h2: "plain_run sample_env transfer_ops genesis_state" by code_simp
  have h3: "mined_count (fst (run sample_env transfer_ops genesis_state)) = 1" by code_simp
  from h0 h0' h1 h2 h3 balance_conservation_in_plain_runs [OF h0 h0' h1 h2] show ?thesis
    by blast
qed

text \<open>
  C5 as stated fails, in two ways. A submission in the network's name with amount -5 is
  accepted (the network has no account, so its balance reads 0), and the block that
  mines it raises the sum by 45. And a transfer of the float 0.001 between two accounts
  rounds both balances: after the block the sum misses the initial sum plus 50 by
  \<open>2\<^sup>-\<^sup>3\<^sup>4\<close>.
\<close>

theorem conservation_fails_on_network_sender_and_on_rounding:
  "mined_count (fst (run sample_env network_ops genesis_state)) = 1
   \<and> total_balance genesis_state = 1750000
   \<and> total_balance (snd (run sample_env network_ops genesis_state)) = 1750045
   \<and> mined_count (fst (run sample_env rounding_ops genesis_state)) = 1
   \<and> total_balance (snd (run sample_env rounding_ops genesis_state))
       = 1750050 - 1 / 17179869184"
  by code_simp

subsection \<open>Difficulty retargeting\<close>

lemma chain_ok_index:
  assumes "chain_ok c" and "i < length c"
  shows "index (c ! i) = int i"
proof -
  from assms have "map index c ! i = map int [0..<length c] ! i"
    by (simp add: chain_ok_def)
  with assms(2) show ?thesis by simp
qed

lemma chain_ok_last_index: "chain_ok c \<Longrightarrow> index (last c) = int (length c) - 1"
  using chain_ok_index [of c "length c - 1"]
  by (cases c rule: rev_cases) (auto simp: chain_ok_def last_conv_nth)

lemma adjust_difficulty_policy:
  assumes "chain_ok (blockchain s)"
  shows "adjust_difficulty s (last (blockchain s)) = Inr (next_difficulty (blockchain s))"
proof (cases "index (last (blockchain s)) mod 10 = 0 \<and> index (last (blockchain s)) > 0")
  case False
  then show ?thesis by (auto simp: adjust_difficulty_def next_difficulty_def Let_def)
next
  case True
  let ?c = "blockchain s"
  from assms have i: "index (last ?c) = int (length ?c) - 1" by (rule chain_ok_last_index)
  with True have n: "11 \<le> length ?c" by presburger
  then have ne: "drop (length ?c - 10) ?c \<noteq> []" by simp
  from n have l: "last (drop (length ?c - 10) ?c) = last ?c" by simp
  from n have "hd (drop (length ?c - 10) ?c) = ?c ! (length ?c - 10)"
    by (simp add: hd_drop_conv_nth)
  moreover from i n have "nat (index (last ?c) - 9) = length ?c - 10" by simp
  ultimately have h: "hd (drop (length ?c - 10) ?c) = ?c ! nat (index (last ?c) - 9)" by simp
  from True ne l h show ?thesis
    by (simp add: adjust_difficulty_def next_difficulty_def Let_def)
qed

lemma next_difficulty_floor: "1 \<le> difficulty (last c) \<Longrightarrow> 1 \<le> next_difficulty c"
  by (simp add: next_difficulty_def Let_def)

lemma chain_ok_append:
  assumes "chain_ok c" and "index b = index (last c) + 1" and "1 \<le> difficulty b"
  shows "chain_ok (c @ [b])"
  using assms chain_ok_last_index [OF assms(1)] by (simp add: chain_ok_def)

lemma chain_ok_last_difficulty: "chain_ok c \<Longrightarrow> 1 \<le> difficulty (last c)"
  by (auto simp: chain_ok_def list_all_iff)

lemma mine_block_chain:
  "blockchain (snd (mine_block E W m s)) = blockchain s
   \<or> (\<exists>b d. adjust_difficulty s (last (blockchain s)) = Inr d
         \<and> blockchain (snd (mine_block E W m s)) = blockchain s @ [b]
         \<and> index b = index (last (blockchain s)) + 1 \<and> difficulty b = d)"
  by (auto simp: mine_block_def commit_block_def candidate_block_def Let_def
      save_accounts_def save_blockchain_def
      split: sum.splits mining_result.splits prod.splits option.splits)

lemma chain_ok_mine_block:
  assumes "chain_ok (blockchain s)"
  shows "chain_ok (blockchain (snd (mine_block E W m s)))"
proof -
  from mine_block_chain [of E W m s] show ?thesis
  proof
    assume "blockchain (snd (mine_block E W m s)) = blockchain s"
    with assms show ?thesis by simp
  next
    assume "\<exists>b d. adjust_difficulty s (last (blockchain s)) = Inr d
         \<and> blockchain (snd (mine_block E W m s)) = blockchain s @ [b]
         \<and> index b = index (last (blockchain s)) + 1 \<and> difficulty b = d"
    then obtain b where a: "adjust_difficulty s (last (blockchain s)) = Inr (difficulty b)"
      and c: "blockchain (snd (mine_block E W m s)) = blockchain s @ [b]"
      and i: "index b = index (last (blockchain s)) + 1"
      by blast
    from a adjust_difficulty_policy [OF assms]
    have "difficulty b = next_difficulty (blockchain s)" by simp
    with chain_ok_last_difficulty [OF assms] have "1 \<le> difficulty b"
      by (simp add: next_difficulty_floor)
    with assms i have "chain_ok (blockchain s @ [b])" by (rule chain_ok_append)
    with c show ?thesis by simp
  qed
qed

lemma chain_ok_exec_op:
  "chain_ok (blockchain s) \<Longrightarrow> chain_ok (blockchain (snd (exec_op E x s)))"
  by (cases x)
     (simp_all add: exec_op_proj chain_ok_mine_block create_account_def create_transaction_def
        Let_def save_accounts_def del: exec_op.simps)

lemma chain_ok_init: "chain_ok (blockchain (init E now no_files))"
  by (simp add: init_def load_blockchain_def no_files_def create_genesis_block_def
      create_initial_accounts_def save_accounts_def save_blockchain_def genesis_block_def
      Let_def chain_ok_def)

lemma chain_ok_reachable: "reachable E s \<Longrightarrow> chain_ok (blockchain s)"
  by (induction rule: reachable.induct) (simp_all add: chain_ok_init chain_ok_exec_op)

text \<open>
  C8: in every state the ledger reaches, the difficulty computed for the next block is
  the one the policy of the specification gives: the tip's difficulty, except when the
  tip's height is a positive multiple of 10, where the average of the nine intervals
  from height tip - 9 to the tip decides: below 30 one more, above 90 one less but not
  below 1, otherwise the same. It is the difficulty a mined block carries, and no block
  of a reached chain has a difficulty below 1.
\<close>

theorem difficulty_retargeting:
  assumes "reachable E s"
  shows "adjust_difficulty s (last (blockchain s)) = Inr (next_difficulty (blockchain s))
     \<and> (fst (mine_block E W m s) = Inr (Mined b) \<longrightarrow>
          difficulty b = next_difficulty (blockchain s))
     \<and> list_all (\<lambda>b. 1 \<le> difficulty b) (blockchain s)"
proof -
  from assms have c: "chain_ok (blockchain s)" by (rule chain_ok_reachable)
  then have a: "adjust_difficulty s (last (blockchain s)) = Inr (next_difficulty (blockchain s))"
    by (rule adjust_difficulty_policy)
  have "difficulty b = next_difficulty (blockchain s)"
    if "fst (mine_block E W m s) = Inr (Mined b)"
    using mine_block_mined [OF that] a by auto
  with a c show ?thesis by (simp add: chain_ok_def)
qed

theorem difficulty_retargeting_witness:
  "reachable sample_env ten_blocks_state
   \<and> index (last (blockchain ten_blocks_state)) = 10
   \<and> next_difficulty (blockchain ten_blocks_state) = 5
   \<and> adjust_difficulty ten_blocks_state (last (blockchain ten_blocks_state)) = Inr 5
   \<and> fst (mine_block sample_env (lucky_run 1700000115) addr_M ten_blocks_state)
       = Inr (Mined (last (blockchain
           (snd (mine_block sample_env (lucky_run 1700000115) addr_M ten_blocks_state)))))
   \<and> difficulty (last (blockchain
           (snd (mine_block sample_env (lucky_run 1700000115) addr_M ten_blocks_state)))) = 5
   \<and> list_all (\<lambda>b. 1 \<le> difficulty b) (blockchain ten_blocks_state)"
proof -
  have r: "reachable sample_env ten_blocks_state"
    unfolding ten_blocks_state_def genesis_state_def by (intro reachable_run reachable.start)
  have h1: "index (last (blockchain ten_blocks_state)) = 10" by code_simp
  have h3: "next_difficulty (blockchain ten_blocks_state) = 5" by code_simp
  have h4: "fst (mine_block sample_env (lucky_run 1700000115) addr_M ten_blocks_state)
       = Inr (Mined (last (blockchain
           (snd (mine_block sample_env (lucky_run 1700000115) addr_M ten_blocks_state)))))"
    by code_simp
  from r h1 h3 h4
    difficulty_retargeting [OF r, of "lucky_run 1700000115" addr_M
      "last (blockchain (snd (mine_block sample_env (lucky_run 1700000115) addr_M ten_blocks_state)))"]
  show ?thesis by simp
qed

subsection \<open>Restart from the saved files\<close>

text \<open>
  C6, evaluated on the code: a ledger started without files saves its chain and its three
  initial balances; a fresh instance started on those files has the same chain and no
  balances at all, since start-up never reads the accounts file.
\<close>

theorem restart_forgets_accounts:
  "accounts (init E now (files (init E now0 no_files))) = []
   \<and> accounts (init E now0 no_files) = initial_accounts
   \<and> accounts_json (files (init E now0 no_files)) = Some initial_accounts
   \<and> blockchain (init E now (files (init E now0 no_files))) = blockchain (init E now0 no_files)"
  by (simp add: init_def load_blockchain_def no_files_def create_genesis_block_def
      create_initial_accounts_def save_accounts_def save_blockchain_def initial_accounts_def)

subsection \<open>A miner without an account\<close>

text \<open>
  C7, evaluated on the code: in the scenario of the specification, with a miner address
  that has no account, the mining call raises KeyError on the reward. The block is
  already appended and the transfer already applied, the miner has no balance, and the
  transfer is still pending.
\<close>

theorem fresh_miner_raises_key_error:
  "fst (run sample_env fresh_miner_ops genesis_state) ! 1 = MineResult (Inl (KeyError ''M''))
   \<and> length (blockchain (snd (run sample_env fresh_miner_ops genesis_state))) = 2
   \<and> accounts (snd (run sample_env fresh_miner_ops genesis_state))
       = [(addr_A, PyInt 999900), (addr_B, PyInt 500100),
          (''KTR3000000000000000000000000000000'', PyInt 250000)]
   \<and> length (pending_transactions (snd (run sample_env fresh_miner_ops genesis_state))) = 1"
  by code_simp

end
